theory Spec2Isabelle
  imports Main "HOL-Library.Option_ord"
begin

section \<open>Python values and dictionaries\<close>

text \<open>
  The records handled by the repository are Python dictionaries with string keys: MongoDB
  documents on the history side, JSON objects on the retrieval side. A dictionary is an
  association list in insertion order; a value is one of the Python values these
  documents carry. Numbers are Python's unbounded integers (floating point is left out),
  and a \<open>datetime\<close> is its position on the store's clock.
\<close>

datatype pyval =
    PNone
  | PBool bool
  | PInt int
  | PStr string
  | PDatetime int
  | PList "pyval list"
  | PDict "(string \<times> pyval) list"

type_synonym pydict = "(string \<times> pyval) list"

text \<open>\<open>k in d\<close>, \<open>d.get(k)\<close>, \<open>d.get(k, default)\<close> and \<open>d[k] = v\<close>.\<close>

definition dict_contains :: "pydict \<Rightarrow> string \<Rightarrow> bool" where
  "dict_contains d k = (map_of d k \<noteq> None)"

definition dict_get :: "pydict \<Rightarrow> string \<Rightarrow> pyval" where
  "dict_get d k = (case map_of d k of None \<Rightarrow> PNone | Some v \<Rightarrow> v)"

definition dict_get_default :: "pydict \<Rightarrow> string \<Rightarrow> pyval \<Rightarrow> pyval" where
  "dict_get_default d k dflt = (case map_of d k of None \<Rightarrow> dflt | Some v \<Rightarrow> v)"

fun dict_set :: "pydict \<Rightarrow> string \<Rightarrow> pyval \<Rightarrow> pydict" where
  "dict_set [] k v = [(k, v)]"
| "dict_set ((k', w) # d) k v = (if k' = k then (k, v) # d else (k', w) # dict_set d k v)"

text \<open>
  Python's \<open>==\<close> on these values: \<open>True == 1\<close> and \<open>False == 0\<close> hold, lists are
  compared element by element, dictionaries key by key whatever their order (a
  dictionary has each key once), and values of different kinds are unequal.
\<close>

fun py_eq :: "pyval \<Rightarrow> pyval \<Rightarrow> bool"
  and py_eq_list :: "pyval list \<Rightarrow> pyval list \<Rightarrow> bool"
  and py_eq_items :: "pydict \<Rightarrow> pydict \<Rightarrow> bool"
  and py_eq_item :: "string \<Rightarrow> pyval \<Rightarrow> pydict \<Rightarrow> bool" where
  "py_eq PNone PNone = True"
| "py_eq (PBool a) (PBool b) = (a = b)"
| "py_eq (PBool a) (PInt b) = ((if a then 1 else 0) = b)"
| "py_eq (PInt a) (PBool b) = (a = (if b then 1 else 0))"
| "py_eq (PInt a) (PInt b) = (a = b)"
| "py_eq (PStr a) (PStr b) = (a = b)"
| "py_eq (PDatetime a) (PDatetime b) = (a = b)"
| "py_eq (PList a) (PList b) = py_eq_list a b"
| "py_eq (PDict a) (PDict b) = (length a = length b \<and> py_eq_items a b)"
| "py_eq _ _ = False"
| "py_eq_list [] [] = True"
| "py_eq_list (x # xs) (y # ys) = (py_eq x y \<and> py_eq_list xs ys)"
| "py_eq_list _ _ = False"
| "py_eq_items [] b = True"
| "py_eq_items ((k, v) # a) b = (py_eq_item k v b \<and> py_eq_items a b)"
| "py_eq_item k v [] = False"
| "py_eq_item k v ((k', w) # b) = (if k = k' then py_eq v w else py_eq_item k v b)"


section \<open>The document store\<close>

text \<open>
  The exceptions the storage code distinguishes. \<open>ConnectionFailure\<close> and
  \<open>ServerSelectionTimeoutError\<close> are the two classes \<open>_connect\<close> catches; with
  \<open>OperationFailure\<close> they belong to the driver's hierarchy below \<open>PyMongoError\<close>.
  \<open>TypeError\<close>, \<open>KeyError\<close>, \<open>RuntimeError\<close> and \<open>InvalidBSON\<close> (the decoder's error on
  a malformed reply, a \<open>BSONError\<close>) are outside that hierarchy. All of them derive from
  \<open>Exception\<close>.
\<close>

datatype exn =
    ConnectionFailure
  | ServerSelectionTimeoutError
  | OperationFailure
  | TypeError
  | KeyError
  | InvalidBSON
  | RuntimeError

fun is_connection_failure :: "exn \<Rightarrow> bool" where
  "is_connection_failure ConnectionFailure = True"
| "is_connection_failure ServerSelectionTimeoutError = True"
| "is_connection_failure _ = False"

fun is_pymongo_error :: "exn \<Rightarrow> bool" where
  "is_pymongo_error ConnectionFailure = True"
| "is_pymongo_error ServerSelectionTimeoutError = True"
| "is_pymongo_error OperationFailure = True"
| "is_pymongo_error _ = False"

text \<open>
  A collection is its documents in insertion order, together with the failure (if any)
  with which the server answers an operation on it.
\<close>

record mongo_collection =
  documents :: "pydict list"
  fault :: "exn option"

text \<open>
  The query \<open>{"conversation_id": cid}\<close> selects the documents whose field is that
  string, or an array holding it.
\<close>

definition matches_conversation :: "string \<Rightarrow> pydict \<Rightarrow> bool" where
  "matches_conversation cid d =
     (case map_of d ''conversation_id'' of
        Some (PStr s) \<Rightarrow> s = cid
      | Some (PList vs) \<Rightarrow> PStr cid \<in> set vs
      | _ \<Rightarrow> False)"

text \<open>
  The sort key is the \<open>timestamp\<close> field. A date is above every other kind of value
  modelled here and above a missing field; values that are not dates are not ordered
  further. Both sorts are stable, so equal keys stay in insertion order.
\<close>

definition timestamp_key :: "pydict \<Rightarrow> int option" where
  "timestamp_key d = (case map_of d ''timestamp'' of Some (PDatetime t) \<Rightarrow> Some t | _ \<Rightarrow> None)"

fun insort_desc :: "pydict \<Rightarrow> pydict list \<Rightarrow> pydict list" where
  "insort_desc x [] = [x]"
| "insort_desc x (y # ys) =
     (if timestamp_key x < timestamp_key y then y # insort_desc x ys else x # y # ys)"

fun sort_desc :: "pydict list \<Rightarrow> pydict list" where
  "sort_desc [] = []"
| "sort_desc (x # xs) = insort_desc x (sort_desc xs)"

fun insort_asc :: "pydict \<Rightarrow> pydict list \<Rightarrow> pydict list" where
  "insort_asc x [] = [x]"
| "insort_asc x (y # ys) =
     (if timestamp_key y < timestamp_key x then y # insort_asc x ys else x # y # ys)"

fun sort_asc :: "pydict list \<Rightarrow> pydict list" where
  "sort_asc [] = []"
| "sort_asc (x # xs) = insort_asc x (sort_asc xs)"

text \<open>
  The driver's \<open>limit\<close>: 0 means no limit, and a negative limit is sent as its
  absolute value.
\<close>

definition apply_limit :: "int \<Rightarrow> 'a list \<Rightarrow> 'a list" where
  "apply_limit n xs = (if n = 0 then xs else take (nat \<bar>n\<bar>) xs)"

datatype sort_direction = ASCENDING | DESCENDING

text \<open>
  \<open>collection.find(query, sort=[("timestamp", dir)], skip=s, limit=n)\<close>, read to the
  end: it raises the collection's fault if there is one.
\<close>

definition collection_find :: "mongo_collection \<Rightarrow> string \<Rightarrow> sort_direction \<Rightarrow> nat \<Rightarrow> int \<Rightarrow> exn + pydict list" where
  "collection_find c cid dir skip limit =
     (case fault c of
        Some e \<Rightarrow> Inl e
      | None \<Rightarrow>
          let selected = filter (matches_conversation cid) (documents c);
              sorted = (case dir of ASCENDING \<Rightarrow> sort_asc selected | DESCENDING \<Rightarrow> sort_desc selected)
          in Inr (apply_limit limit (drop skip sorted)))"

text \<open>
  \<open>collection.delete_many({"conversation_id": cid})\<close>: the number of documents
  removed and the collection without them.
\<close>

definition delete_many :: "mongo_collection \<Rightarrow> string \<Rightarrow> exn + (nat \<times> mongo_collection)" where
  "delete_many c cid =
     (case fault c of
        Some e \<Rightarrow> Inl e
      | None \<Rightarrow>
          Inr (length (filter (matches_conversation cid) (documents c)),
               c\<lparr>documents := filter (\<lambda>d. \<not> matches_conversation cid d) (documents c)\<rparr>))"

section \<open>The history server: \<open>MongoDBClient\<close>\<close>

text \<open>
  The server the client talks to: the collection, and the failure (if any) with which
  connecting, pinging or creating the indexes ends.
\<close>

record mongo_server =
  server_collection :: mongo_collection
  connect_fault :: "exn option"

record mongodb_client =
  is_connected :: bool
  max_history_length :: int

text \<open>
  \<open>_connect\<close> returns whether the connection stands; it catches the two connection
  errors and lets any other exception through.
\<close>

definition MongoDBClient_connect :: "mongo_server \<Rightarrow> mongodb_client \<Rightarrow> (exn + bool) \<times> mongodb_client" where
  "MongoDBClient_connect srv c =
     (case connect_fault srv of
        None \<Rightarrow> (Inr True, c\<lparr>is_connected := True\<rparr>)
      | Some e \<Rightarrow>
          if is_connection_failure e then (Inr False, c\<lparr>is_connected := False\<rparr>)
          else (Inl e, c))"

text \<open>\<open>limit or default\<close>: \<open>None\<close> and 0 are the falsy limits.\<close>

definition limit_or :: "int option \<Rightarrow> int \<Rightarrow> int" where
  "limit_or limit dflt = (case limit of None \<Rightarrow> dflt | Some n \<Rightarrow> if n = 0 then dflt else n)"

text \<open>
  The scan of lines 133 to 141: \<open>user_in_first_two i msgs\<close> runs the loop from index
  \<open>i\<close> and tells whether it reaches the branch that drops the newest pair.
\<close>

fun user_in_first_two :: "nat \<Rightarrow> pydict list \<Rightarrow> bool" where
  "user_in_first_two i [] = False"
| "user_in_first_two i (msg # rest) =
     (if py_eq (dict_get msg ''role'') (PStr ''user'') then True
      else if i \<ge> 1 then False
      else user_in_first_two (i + 1) rest)"

definition exclude_current_pair :: "bool \<Rightarrow> pydict list \<Rightarrow> pydict list" where
  "exclude_current_pair exclude_current messages =
     (if exclude_current \<and> length messages \<ge> 2
      then (if user_in_first_two 0 messages then drop 2 messages else messages)
      else messages)"

text \<open>The body of the \<open>try\<close> block of \<open>MongoDBClient.get_conversation_history\<close>.\<close>

definition MongoDBClient_history_try ::
  "mongo_server \<Rightarrow> mongodb_client \<Rightarrow> string \<Rightarrow> int \<Rightarrow> bool \<Rightarrow> (exn + pydict list) \<times> mongodb_client" where
  "MongoDBClient_history_try srv c conv_id limit exclude_current =
     (let query = (\<lambda>c'.
            case collection_find (server_collection srv) conv_id DESCENDING 0
                      (limit + (if exclude_current then 2 else 0)) of
              Inl e \<Rightarrow> (Inl e, c')
            | Inr messages \<Rightarrow> (Inr (rev (exclude_current_pair exclude_current messages)), c'))
      in if \<not> is_connected c
         then (case MongoDBClient_connect srv c of
                 (Inl e, c') \<Rightarrow> (Inl e, c')
               | (Inr ok, c') \<Rightarrow> if \<not> ok then (Inr [], c') else query c')
         else query c)"

text \<open>
  \<open>MongoDBClient.get_conversation_history\<close>: the effective limit, the \<open>try\<close> block, and
  the handler \<open>except Exception\<close>, which turns every exception into the empty list.
\<close>

definition MongoDBClient_get_conversation_history ::
  "mongo_server \<Rightarrow> mongodb_client \<Rightarrow> string \<Rightarrow> int option \<Rightarrow> bool \<Rightarrow> (exn + pydict list) \<times> mongodb_client" where
  "MongoDBClient_get_conversation_history srv c conversation_id limit exclude_current =
     (let limit' = limit_or limit (max_history_length c)
      in case MongoDBClient_history_try srv c conversation_id limit' exclude_current of
           (Inl e, c') \<Rightarrow> (Inr [], c')
         | (Inr messages, c') \<Rightarrow> (Inr messages, c'))"

section \<open>The history tool: \<open>ConversationHandler\<close>\<close>

record conversation_handler =
  mongodb_client :: mongodb_client
  config_max_history_length :: int

record history_response =
  response_conversation_id :: string
  response_messages :: "pydict list"
  message_count :: nat
  response_error :: "string option"

text \<open>
  The formatted message of lines 55 to 60. \<open>isoformat\<close> is the text of a date; any
  other timestamp value is passed on as it is.
\<close>

definition format_timestamp :: "(int \<Rightarrow> string) \<Rightarrow> pyval \<Rightarrow> pyval" where
  "format_timestamp isoformat v = (case v of PDatetime t \<Rightarrow> PStr (isoformat t) | _ \<Rightarrow> v)"

definition format_message :: "(int \<Rightarrow> string) \<Rightarrow> pydict \<Rightarrow> pydict" where
  "format_message isoformat msg =
     [(''role'', dict_get_default msg ''role'' (PStr ''unknown'')),
      (''content'', dict_get_default msg ''content'' (PStr [])),
      (''timestamp'', format_timestamp isoformat (dict_get_default msg ''timestamp'' (PStr [])))]"

text \<open>
  \<open>ConversationHandler.get_conversation_history\<close>; \<open>str_exn\<close> is the text of an
  exception, used in the error response of the \<open>except\<close> branch.
\<close>

definition ConversationHandler_get_conversation_history ::
  "(int \<Rightarrow> string) \<Rightarrow> (exn \<Rightarrow> string) \<Rightarrow> mongo_server \<Rightarrow> conversation_handler \<Rightarrow> string \<Rightarrow>
   int option \<Rightarrow> bool \<Rightarrow> history_response \<times> conversation_handler" where
  "ConversationHandler_get_conversation_history isoformat str_exn srv h conversation_id limit exclude_current =
     (case MongoDBClient_get_conversation_history srv (mongodb_client h) conversation_id
             (Some (limit_or limit (config_max_history_length h))) exclude_current of
        (Inl e, c') \<Rightarrow>
          (\<lparr>response_conversation_id = conversation_id, response_messages = [],
            message_count = 0,
            response_error = Some (''Error retrieving conversation history: '' @ str_exn e)\<rparr>,
           h\<lparr>mongodb_client := c'\<rparr>)
      | (Inr messages, c') \<Rightarrow>
          (let formatted_messages = map (format_message isoformat) messages
           in (\<lparr>response_conversation_id = conversation_id, response_messages = formatted_messages,
                message_count = length formatted_messages, response_error = None\<rparr>,
               h\<lparr>mongodb_client := c'\<rparr>)))"

section \<open>The agent's store: \<open>ConversationRepository\<close>\<close>

text \<open>
  The repository holds the collection handle it got at construction, or \<open>None\<close> when
  the store could not be reached.
\<close>

record conversation_repository =
  collection :: "mongo_collection option"

text \<open>The projection \<open>{"_id": 0}\<close> removes the store's own key from a document.\<close>

definition project_out_id :: "pydict \<Rightarrow> pydict" where
  "project_out_id d = filter (\<lambda>(k, v). k \<noteq> ''_id'') d"

text \<open>The role written for a legacy \<open>type\<close> (lines 116 to 124).\<close>

definition role_of_type :: "pyval \<Rightarrow> pyval" where
  "role_of_type msg_type =
     (if py_eq msg_type (PStr ''human'') then PStr ''user''
      else if py_eq msg_type (PStr ''ai'') then PStr ''assistant''
      else if py_eq msg_type (PStr ''system'') then PStr ''system''
      else msg_type)"

text \<open>One round of the validation loop (lines 112 to 136).\<close>

definition validate_message :: "pydict \<Rightarrow> pydict" where
  "validate_message msg =
     (let msg1 = (if dict_contains msg ''type'' \<and> \<not> dict_contains msg ''role''
                  then dict_set msg ''role'' (role_of_type (dict_get msg ''type''))
                  else msg);
          msg2 = (if \<not> dict_contains msg1 ''role''
                  then dict_set msg1 ''role'' (PStr ''user'') else msg1);
          msg3 = (if \<not> dict_contains msg2 ''content''
                  then dict_set msg2 ''content'' (PStr []) else msg2)
      in msg3)"

text \<open>
  \<open>ConversationRepository.get_conversation_history\<close>. The cursor is sorted by
  ascending timestamp, skipped when \<open>skip > 0\<close> and limited when a limit is given; the
  handler catches \<open>PyMongoError\<close> only, so any other exception reaches the caller.
\<close>

definition ConversationRepository_get_conversation_history ::
  "conversation_repository \<Rightarrow> string \<Rightarrow> int option \<Rightarrow> int \<Rightarrow> exn + pydict list" where
  "ConversationRepository_get_conversation_history repo conversation_id limit skip =
     (case collection repo of
        None \<Rightarrow> Inr []
      | Some c \<Rightarrow>
          (case collection_find c conversation_id ASCENDING
                  (if skip > 0 then nat skip else 0)
                  (case limit of None \<Rightarrow> 0 | Some n \<Rightarrow> n) of
             Inl e \<Rightarrow> if is_pymongo_error e then Inr [] else Inl e
           | Inr cursor \<Rightarrow> Inr (map validate_message (map project_out_id cursor))))"

text \<open>
  \<open>ConversationRepository.clear_conversation\<close> returns its boolean, the line it logs
  and the repository afterwards.
\<close>

datatype log_entry =
    CollectionNotAvailable
  | Deleted nat string
  | ErrorClearing exn

definition clear_conversation ::
  "conversation_repository \<Rightarrow> string \<Rightarrow> (exn + bool) \<times> log_entry list \<times> conversation_repository" where
  "clear_conversation repo conversation_id =
     (case collection repo of
        None \<Rightarrow> (Inr False, [CollectionNotAvailable], repo)
      | Some c \<Rightarrow>
          (case delete_many c conversation_id of
             Inl e \<Rightarrow> if is_pymongo_error e then (Inr False, [ErrorClearing e], repo)
                      else (Inl e, [], repo)
           | Inr (deleted_count, c') \<Rightarrow>
               (Inr True, [Deleted deleted_count conversation_id], repo\<lparr>collection := Some c'\<rparr>)))"

section \<open>The retrieval tool: \<open>KnowledgeBaseRetriever.filter_by_metadata\<close>\<close>

text \<open>\<open>a in b\<close> on two strings: \<open>a\<close> occurs in \<open>b\<close> as a contiguous piece.\<close>

fun is_substring :: "string \<Rightarrow> string \<Rightarrow> bool" where
  "is_substring a [] = (a = [])"
| "is_substring a (c # b) = (take (length a) (c # b) = a \<or> is_substring a b)"

text \<open>
  \<open>field in v\<close> and \<open>v[field]\<close> for a string \<open>field\<close>, with the \<open>TypeError\<close> Python
  raises when \<open>v\<close> is not a container, or is a string or a list indexed by a string.
\<close>

definition py_contains :: "string \<Rightarrow> pyval \<Rightarrow> exn + bool" where
  "py_contains field v =
     (case v of
        PDict d \<Rightarrow> Inr (dict_contains d field)
      | PStr s \<Rightarrow> Inr (is_substring field s)
      | PList vs \<Rightarrow> Inr (list_ex (\<lambda>x. py_eq x (PStr field)) vs)
      | _ \<Rightarrow> Inl TypeError)"

definition py_getitem :: "pyval \<Rightarrow> string \<Rightarrow> exn + pyval" where
  "py_getitem v field =
     (case v of
        PDict d \<Rightarrow> (case map_of d field of None \<Rightarrow> Inl KeyError | Some x \<Rightarrow> Inr x)
      | _ \<Rightarrow> Inl TypeError)"

text \<open>The condition of the comprehension (lines 113 to 115), evaluated left to right.\<close>

definition source_matches :: "pydict \<Rightarrow> string \<Rightarrow> pyval \<Rightarrow> exn + bool" where
  "source_matches source field v =
     (if \<not> dict_contains source ''metadata'' then Inr False
      else (case py_contains field (dict_get source ''metadata'') of
              Inl e \<Rightarrow> Inl e
            | Inr False \<Rightarrow> Inr False
            | Inr True \<Rightarrow>
                (case py_getitem (dict_get source ''metadata'') field of
                   Inl e \<Rightarrow> Inl e
                 | Inr x \<Rightarrow> Inr (py_eq x v))))"

text \<open>The comprehension itself: an exception at one source ends it.\<close>

fun filter_by_metadata :: "pydict list \<Rightarrow> string \<Rightarrow> pyval \<Rightarrow> exn + pydict list" where
  "filter_by_metadata [] field v = Inr []"
| "filter_by_metadata (source # sources) field v =
     (case source_matches source field v of
        Inl e \<Rightarrow> Inl e
      | Inr keep \<Rightarrow>
          (case filter_by_metadata sources field v of
             Inl e \<Rightarrow> Inl e
           | Inr filtered \<Rightarrow> Inr (if keep then source # filtered else filtered)))"

section \<open>The agent's memory\<close>

text \<open>
  The surroundings of one write to the memory: the reading of the clock
  (\<open>datetime.utcnow()\<close>) and the condition of the store's server at that moment, an
  exception when it fails.
\<close>

record write_env =
  now :: int
  server_fault :: "exn option"

text \<open>The message built by \<open>add_message\<close>.\<close>

definition new_message :: "string \<Rightarrow> string \<Rightarrow> string \<Rightarrow> int \<Rightarrow> pydict" where
  "new_message cid role content t =
     [(''conversation_id'', PStr cid), (''role'', PStr role), (''content'', PStr content),
      (''timestamp'', PDatetime t)]"

text \<open>
  \<open>collection.insert_one(message)\<close>: the document is appended, or the collection's
  fault is raised. The identifier the store adds to the document is left out.
\<close>

definition insert_one :: "mongo_collection \<Rightarrow> pydict \<Rightarrow> exn + mongo_collection" where
  "insert_one c d =
     (case fault c of
        Some e \<Rightarrow> Inl e
      | None \<Rightarrow> Inr (c\<lparr>documents := documents c @ [d]\<rparr>))"

text \<open>
  \<open>ConversationRepository.add_message\<close>: \<open>False\<close> without a collection, \<open>True\<close> after
  the insert, \<open>False\<close> when the insert raises a \<open>PyMongoError\<close>; any other exception of
  the insert reaches the caller.
\<close>

definition ConversationRepository_add_message ::
  "write_env \<Rightarrow> conversation_repository \<Rightarrow> string \<Rightarrow> string \<Rightarrow> string \<Rightarrow>
   (exn + bool) \<times> conversation_repository" where
  "ConversationRepository_add_message env repo cid role content =
     (case collection repo of
        None \<Rightarrow> (Inr False, repo)
      | Some c \<Rightarrow>
          (let c0 = c\<lparr>fault := server_fault env\<rparr>
           in case insert_one c0 (new_message cid role content (now env)) of
                Inl e \<Rightarrow> (if is_pymongo_error e then Inr False else Inl e,
                          repo\<lparr>collection := Some c0\<rparr>)
              | Inr c' \<Rightarrow> (Inr True, repo\<lparr>collection := Some c'\<rparr>)))"

text \<open>
  \<open>MongoDBMemoryAdapter.add_message\<close> has no \<open>try\<close>: it appends to the fallback list
  when the repository reports failure, and an exception of the repository passes through.
\<close>

record mongodb_memory_adapter =
  adapter_conversation_id :: string
  repository :: conversation_repository
  fallback_memory :: "pydict list"

definition MongoDBMemoryAdapter_add_message ::
  "write_env \<Rightarrow> mongodb_memory_adapter \<Rightarrow> string \<Rightarrow> string \<Rightarrow> exn + mongodb_memory_adapter" where
  "MongoDBMemoryAdapter_add_message env ad role content =
     (case ConversationRepository_add_message env (repository ad) (adapter_conversation_id ad)
             role content of
        (Inl e, repo') \<Rightarrow> Inl e
      | (Inr success, repo') \<Rightarrow>
          if \<not> success
          then Inr (ad\<lparr>repository := repo',
                        fallback_memory := fallback_memory ad
                          @ [new_message (adapter_conversation_id ad) role content (now env)]\<rparr>)
          else Inr (ad\<lparr>repository := repo'\<rparr>))"

text \<open>
  \<open>ShortTermMemory.add_message\<close> has no \<open>try\<close> either: with an adapter the write goes
  to it, without one the message is appended to the list in memory.
\<close>

record short_term_memory =
  memory_conversation_id :: string
  conversation_history :: "pydict list"
  memory_adapter :: "mongodb_memory_adapter option"

definition ShortTermMemory_add_message ::
  "write_env \<Rightarrow> short_term_memory \<Rightarrow> string \<Rightarrow> string \<Rightarrow> exn + short_term_memory" where
  "ShortTermMemory_add_message env m role content =
     (case memory_adapter m of
        Some ad \<Rightarrow>
          (case MongoDBMemoryAdapter_add_message env ad role content of
             Inl e \<Rightarrow> Inl e
           | Inr ad' \<Rightarrow> Inr (m\<lparr>memory_adapter := Some ad'\<rparr>))
      | None \<Rightarrow>
          Inr (m\<lparr>conversation_history := conversation_history m
                 @ [new_message (memory_conversation_id m) role content (now env)]\<rparr>))"


section \<open>The orchestrator: \<open>BedrockRAGAgent.answer_question\<close>\<close>

text \<open>The messages exchanged with the model runtime.\<close>

datatype lc_message =
    HumanMessage string
  | AIMessage string
  | SystemMessage string
  | ToolMessage string

fun is_AIMessage :: "lc_message \<Rightarrow> bool" where
  "is_AIMessage (AIMessage _) = True"
| "is_AIMessage _ = False"

fun message_content :: "lc_message \<Rightarrow> string" where
  "message_content (HumanMessage s) = s"
| "message_content (AIMessage s) = s"
| "message_content (SystemMessage s) = s"
| "message_content (ToolMessage s) = s"

text \<open>
  The agent: its conversation id, whether \<open>setup\<close> has built the model agent, and its
  memory.
\<close>

record bedrock_rag_agent =
  conversation_id :: string
  agent_ready :: bool
  memory :: short_term_memory

text \<open>
  The returned dictionary: its \<open>messages\<close>, and its \<open>error\<close> key when it has one.
\<close>

record answer =
  answer_messages :: "lc_message list"
  answer_error :: "bool option"

text \<open>The instruction of lines 102 to 116.\<close>

definition generic_prompt :: "string \<Rightarrow> string \<Rightarrow> string" where
  "generic_prompt user_query cid =
     [CHR 0x0A] @ ''Please answer this question: '' @ user_query @ [CHR 0x0A, CHR 0x0A]
     @ ''First determine what type of question this is:'' @ [CHR 0x0A]
     @ ''1. If this is about conversation history, previous messages, or past interactions, use the ''
     @ [CHR 0x27] @ ''get_conversation_history'' @ [CHR 0x27]
     @ '' tool with these EXACT parameters:'' @ [CHR 0x0A]
     @ ''   {'' @ [CHR 0x0A]
     @ ''     '' @ [CHR 0x22] @ ''conversation_id'' @ [CHR 0x22] @ '': '' @ [CHR 0x22] @ cid @ [CHR 0x22]
     @ '','' @ [CHR 0x0A]
     @ ''     '' @ [CHR 0x22] @ ''exclude_current'' @ [CHR 0x22] @ '': true'' @ [CHR 0x0A]
     @ ''   }'' @ [CHR 0x0A]
     @ ''   '' @ [CHR 0x0A]
     @ ''2. If this needs information from the knowledge base, use the ''
     @ [CHR 0x27] @ ''retrieve_documents'' @ [CHR 0x27] @ '' tool.'' @ [CHR 0x0A, CHR 0x0A]
     @ ''Your current conversation ID is: '' @ cid @ [CHR 0x0A]
     @ ''Make sure to set exclude_current to true to avoid getting the current question when retrieving history.''
     @ [CHR 0x0A]"

definition error_answer :: "string \<Rightarrow> string \<Rightarrow> answer" where
  "error_answer user_query text =
     \<lparr>answer_messages = [HumanMessage (''Answer this question: '' @ user_query), AIMessage text],
      answer_error = Some True\<rparr>"

text \<open>
  The body of the \<open>try\<close> block (lines 96 to 142). \<open>ainvoke\<close> is the model runtime: it
  returns the message list of its result or raises. \<open>env_user\<close> and \<open>env_answer\<close> are
  the surroundings of the write of the query and of the write of the answer. An
  exception leaves the block with the agent as it was when it was raised.
\<close>

definition answer_question_body ::
  "(string \<Rightarrow> exn + lc_message list) \<Rightarrow> write_env \<Rightarrow> write_env \<Rightarrow> bedrock_rag_agent \<Rightarrow> string \<Rightarrow>
   (exn + answer) \<times> bedrock_rag_agent" where
  "answer_question_body ainvoke env_user env_answer a user_query =
     (case ShortTermMemory_add_message env_user (memory a) ''user'' user_query of
        Inl e \<Rightarrow> (Inl e, a)
      | Inr m1 \<Rightarrow>
          (let a1 = a\<lparr>memory := m1\<rparr>
           in case ainvoke (generic_prompt user_query (conversation_id a1)) of
                Inl e \<Rightarrow> (Inl e, a1)
              | Inr result \<Rightarrow>
                  (let ai_messages = filter is_AIMessage result
                   in if ai_messages = []
                      then (let error_response = ''Error: Could not generate an answer for this query.''
                            in case ShortTermMemory_add_message env_answer (memory a1) ''assistant''
                                      error_response of
                                 Inl e \<Rightarrow> (Inl e, a1)
                               | Inr m2 \<Rightarrow> (Inr (error_answer user_query error_response),
                                            a1\<lparr>memory := m2\<rparr>))
                      else (case ShortTermMemory_add_message env_answer (memory a1) ''assistant''
                                   (message_content (last ai_messages)) of
                              Inl e \<Rightarrow> (Inl e, a1)
                            | Inr m2 \<Rightarrow> (Inr \<lparr>answer_messages = result, answer_error = None\<rparr>,
                                         a1\<lparr>memory := m2\<rparr>)))))"

text \<open>
  The \<open>try\<close> statement (lines 95 to 159): the handler \<open>except Exception\<close> builds the
  error message from the text \<open>str_exn e\<close> of the exception, writes it to the memory in
  the surroundings \<open>env_error\<close>, and returns the error response. The write of the handler
  is not guarded: its exception reaches the caller.
\<close>

definition answer_question_try ::
  "(exn \<Rightarrow> string) \<Rightarrow> (string \<Rightarrow> exn + lc_message list) \<Rightarrow> write_env \<Rightarrow> write_env \<Rightarrow> write_env \<Rightarrow>
   bedrock_rag_agent \<Rightarrow> string \<Rightarrow> (exn + answer) \<times> bedrock_rag_agent" where
  "answer_question_try str_exn ainvoke env_user env_answer env_error a user_query =
     (case answer_question_body ainvoke env_user env_answer a user_query of
        (Inr r, a') \<Rightarrow> (Inr r, a')
      | (Inl e, a') \<Rightarrow>
          (let error_message = ''An error occurred while generating the answer: '' @ str_exn e
           in case ShortTermMemory_add_message env_error (memory a') ''assistant'' error_message of
                Inl e' \<Rightarrow> (Inl e', a')
              | Inr m \<Rightarrow> (Inr (error_answer user_query error_message), a'\<lparr>memory := m\<rparr>)))"

text \<open>
  \<open>answer_question\<close>: \<open>setup\<close> runs first when the agent is not built yet, outside the
  \<open>try\<close> statement, so an exception of \<open>setup\<close> reaches the caller.
\<close>

definition answer_question ::
  "exn option \<Rightarrow> (exn \<Rightarrow> string) \<Rightarrow> (string \<Rightarrow> exn + lc_message list) \<Rightarrow>
   write_env \<Rightarrow> write_env \<Rightarrow> write_env \<Rightarrow> bedrock_rag_agent \<Rightarrow> string \<Rightarrow>
   (exn + answer) \<times> bedrock_rag_agent" where
  "answer_question setup str_exn ainvoke env_user env_answer env_error a user_query =
     (if \<not> agent_ready a
      then (case setup of
              Some e \<Rightarrow> (Inl e, a)
            | None \<Rightarrow>
                answer_question_try str_exn ainvoke env_user env_answer env_error
                  (a\<lparr>agent_ready := True\<rparr>) user_query)
      else answer_question_try str_exn ainvoke env_user env_answer env_error a user_query)"

section \<open>Sample data\<close>

text \<open>
  A conversation of two turns, \<open>u1, a1, u2, a2\<close> at times 1 to 4, on a server that
  answers, with a client that is connected and has the default history length 10.
\<close>

definition sample_message :: "string \<Rightarrow> string \<Rightarrow> string \<Rightarrow> int \<Rightarrow> pydict" where
  "sample_message cid role content t =
     [(''conversation_id'', PStr cid), (''role'', PStr role), (''content'', PStr content),
      (''timestamp'', PDatetime t)]"

definition sample_u1 :: pydict where
  "sample_u1 = sample_message ''c1'' ''user'' ''q1'' 1"

definition sample_a1 :: pydict where
  "sample_a1 = sample_message ''c1'' ''assistant'' ''r1'' 2"

definition sample_u2 :: pydict where
  "sample_u2 = sample_message ''c1'' ''user'' ''q2'' 3"

definition sample_a2 :: pydict where
  "sample_a2 = sample_message ''c1'' ''assistant'' ''r2'' 4"

definition sample_server :: "pydict list \<Rightarrow> mongo_server" where
  "sample_server ds =
     \<lparr>server_collection = \<lparr>documents = ds, fault = None\<rparr>, connect_fault = None\<rparr>"

definition sample_client :: mongodb_client where
  "sample_client = \<lparr>is_connected = True, max_history_length = 10\<rparr>"

text \<open>Legacy records: a \<open>type\<close> and no \<open>role\<close>.\<close>

definition legacy_message :: "string \<Rightarrow> string \<Rightarrow> string \<Rightarrow> int \<Rightarrow> pydict" where
  "legacy_message cid ty content t =
     [(''conversation_id'', PStr cid), (''type'', PStr ty), (''content'', PStr content),
      (''timestamp'', PDatetime t)]"

definition legacy_three :: "pydict list" where
  "legacy_three =
     [legacy_message ''c1'' ''human'' ''q1'' 1, legacy_message ''c1'' ''ai'' ''r1'' 2,
      legacy_message ''c1'' ''human'' ''q2'' 3]"

text \<open>Sample texts for a date and for an exception.\<close>

definition sample_isoformat :: "int \<Rightarrow> string" where
  "sample_isoformat t = ''2024-01-01T00:00:00''"

definition sample_str_exn :: "exn \<Rightarrow> string" where
  "sample_str_exn e = ''error''"

definition sample_handler :: conversation_handler where
  "sample_handler = \<lparr>mongodb_client = sample_client, config_max_history_length = 10\<rparr>"

text \<open>
  A conversation of twenty messages at times 1 to 20: nine turns of \<open>user\<close> and
  \<open>assistant\<close>, then two \<open>assistant\<close> messages (the user side of the last turn did not
  reach the store).
\<close>

definition twenty_role :: "nat \<Rightarrow> string" where
  "twenty_role i = (if 19 \<le> i then ''assistant'' else if odd i then ''user'' else ''assistant'')"

definition twenty_messages :: "pydict list" where
  "twenty_messages = map (\<lambda>i. sample_message ''c1'' (twenty_role i) ''m'' (int i)) [1..<21]"

text \<open>
  A repository whose collection answers and holds three legacy records with the types
  \<open>human\<close>, \<open>ai\<close> and \<open>foo\<close>; a record with neither \<open>role\<close>, \<open>type\<close> nor \<open>content\<close>;
  a collection that answers every operation with a given exception.
\<close>

definition sample_repository :: "pydict list \<Rightarrow> conversation_repository" where
  "sample_repository ds = \<lparr>collection = Some \<lparr>documents = ds, fault = None\<rparr>\<rparr>"

definition legacy_foo :: "pydict list" where
  "legacy_foo =
     [legacy_message ''c1'' ''human'' ''q1'' 1, legacy_message ''c1'' ''ai'' ''r1'' 2,
      legacy_message ''c1'' ''foo'' ''x'' 3]"

definition bare_message :: pydict where
  "bare_message = [(''conversation_id'', PStr ''c1''), (''timestamp'', PDatetime 1)]"

definition failing_repository :: "exn \<Rightarrow> conversation_repository" where
  "failing_repository e = \<lparr>collection = Some \<lparr>documents = [], fault = Some e\<rparr>\<rparr>"







section \<open>Basic facts\<close>

lemma py_eq_PStr: "py_eq v (PStr s) = (v = PStr s)"
  by (cases v) auto

text \<open>
  With a standing connection, or one that can be made, the history is the query's
  result after the exclusion step, reversed; a failed query gives the empty list.
\<close>

lemma history_connected:
  assumes "is_connected c \<or> connect_fault srv = None"
  shows "fst (MongoDBClient_get_conversation_history srv c cid limit ex) =
     (case collection_find (server_collection srv) cid DESCENDING 0
             (limit_or limit (max_history_length c) + (if ex then 2 else 0)) of
        Inl e \<Rightarrow> Inr []
      | Inr messages \<Rightarrow> Inr (rev (exclude_current_pair ex messages)))"
  using assms
  by (auto simp: MongoDBClient_get_conversation_history_def MongoDBClient_history_try_def
      MongoDBClient_connect_def Let_def split: sum.splits option.splits)

text \<open>
  Both sorts keep the documents they are given and order them by the timestamp key,
  newest first or oldest first.
\<close>

lemma set_insort_desc: "set (insort_desc x xs) = insert x (set xs)"
  by (induction xs) auto

lemma set_sort_desc: "set (sort_desc xs) = set xs"
  by (induction xs) (auto simp: set_insort_desc)

lemma length_insort_desc: "length (insort_desc x xs) = Suc (length xs)"
  by (induction xs) auto

lemma length_sort_desc: "length (sort_desc xs) = length xs"
  by (induction xs) (auto simp: length_insort_desc)

lemma sorted_insort_desc:
  "sorted_wrt (\<lambda>a b. timestamp_key b \<le> timestamp_key a) xs \<Longrightarrow>
   sorted_wrt (\<lambda>a b. timestamp_key b \<le> timestamp_key a) (insort_desc x xs)"
  by (induction xs) (auto simp: set_insort_desc)

lemma sorted_sort_desc: "sorted_wrt (\<lambda>a b. timestamp_key b \<le> timestamp_key a) (sort_desc xs)"
  by (induction xs) (auto simp: sorted_insort_desc)

lemma set_insort_asc: "set (insort_asc x xs) = insert x (set xs)"
  by (induction xs) auto

lemma sorted_insort_asc:
  "sorted_wrt (\<lambda>a b. timestamp_key a \<le> timestamp_key b) xs \<Longrightarrow>
   sorted_wrt (\<lambda>a b. timestamp_key a \<le> timestamp_key b) (insort_asc x xs)"
  by (induction xs) (auto simp: set_insort_asc)

lemma sorted_sort_asc: "sorted_wrt (\<lambda>a b. timestamp_key a \<le> timestamp_key b) (sort_asc xs)"
  by (induction xs) (auto simp: sorted_insort_asc)

section \<open>The exclusion heuristic\<close>

text \<open>
  Claim C1. Let the messages of a conversation be, oldest first, \<open>u1, a1, u2, a2\<close> with
  strictly increasing timestamps, \<open>u2\<close> having role \<open>user\<close>. On a server that answers,
  the query of \<open>get_conversation_history\<close> with limit 10 and \<open>exclude_current\<close> fetches
  them newest first, \<open>a2, u2, a1, u1\<close>; the scan finds the role \<open>user\<close> at the second
  position, drops the two newest messages, and the call returns exactly \<open>u1, a1\<close>,
  oldest first.
\<close>

theorem exclusion_heuristic:
  assumes "fault (server_collection srv) = None"
    and "is_connected c \<or> connect_fault srv = None"
    and "filter (matches_conversation cid) (documents (server_collection srv)) = [u1, a1, u2, a2]"
    and "map_of u1 ''timestamp'' = Some (PDatetime t1)"
    and "map_of a1 ''timestamp'' = Some (PDatetime t2)"
    and "map_of u2 ''timestamp'' = Some (PDatetime t3)"
    and "map_of a2 ''timestamp'' = Some (PDatetime t4)"
    and "t1 < t2" "t2 < t3" "t3 < t4"
    and "map_of u2 ''role'' = Some (PStr ''user'')"
  shows "collection_find (server_collection srv) cid DESCENDING 0 12 = Inr [a2, u2, a1, u1]
       \<and> fst (MongoDBClient_get_conversation_history srv c cid (Some 10) True) = Inr [u1, a1]"
proof -
  have f: "collection_find (server_collection srv) cid DESCENDING 0 12 = Inr [a2, u2, a1, u1]"
    using assms by (simp add: collection_find_def timestamp_key_def apply_limit_def)
  have "user_in_first_two 0 [a2, u2, a1, u1]"
    using assms(11) by (simp add: dict_get_def py_eq_PStr)
  then have "exclude_current_pair True [a2, u2, a1, u1] = [a1, u1]"
    by (simp add: exclude_current_pair_def)
  with f show ?thesis
    using history_connected[OF assms(2), of cid "Some 10" True]
    by (simp add: limit_or_def)
qed

theorem exclusion_heuristic_witness:
  "fst (MongoDBClient_get_conversation_history
          (sample_server [sample_u1, sample_a1, sample_u2, sample_a2]) sample_client ''c1'' (Some 10) True)
   = Inr [sample_u1, sample_a1]"
  using exclusion_heuristic[of "sample_server [sample_u1, sample_a1, sample_u2, sample_a2]"
      sample_client "''c1''" sample_u1 sample_a1 sample_u2 sample_a2 1 2 3 4]
  by (simp add: sample_server_def sample_client_def sample_u1_def sample_a1_def sample_u2_def
      sample_a2_def sample_message_def matches_conversation_def)

section \<open>A falsy limit\<close>



section \<open>Legacy records and the exclusion step\<close>

lemma user_in_first_two_no_role:
  assumes "2 \<le> length ms" "map_of (ms ! 0) ''role'' = None" "map_of (ms ! 1) ''role'' = None"
  shows "\<not> user_in_first_two 0 ms"
proof -
  obtain x y rest where ms: "ms = x # y # rest"
    using assms(1) by (cases ms; cases "tl ms") auto
  show ?thesis using assms(2,3) unfolding ms
    by (simp add: dict_get_def)
qed

lemma length_apply_limit: "0 < n \<Longrightarrow> length (apply_limit n xs) \<le> nat n"
  by (simp add: apply_limit_def)

lemma find_length:
  "collection_find col cid dir sk n = Inr ms \<Longrightarrow> 0 < n \<Longrightarrow> length ms \<le> nat n"
  by (auto simp: collection_find_def Let_def length_apply_limit split: option.splits)

text \<open>
  Claim C10. The exclusion step reads the \<open>role\<close> key of the fetched documents as they
  are stored; no \<open>type\<close> is translated on this path. When the two newest fetched
  documents have no \<open>role\<close> key (legacy records carrying only a \<open>type\<close>), nothing is
  dropped: the call with \<open>exclude_current\<close> returns every fetched document, oldest
  first, and for a positive effective limit that is at most limit + 2 documents. The
  witness is a conversation of three legacy records, all three returned for limit 1.
\<close>

theorem legacy_records_not_excluded:
  assumes "is_connected c \<or> connect_fault srv = None"
    and "collection_find (server_collection srv) cid DESCENDING 0
           (limit_or limit (max_history_length c) + 2) = Inr fetched"
    and "2 \<le> length fetched"
    and "map_of (fetched ! 0) ''role'' = None"
    and "map_of (fetched ! 1) ''role'' = None"
  shows "fst (MongoDBClient_get_conversation_history srv c cid limit True) = Inr (rev fetched)
       \<and> (0 < limit_or limit (max_history_length c) \<longrightarrow>
            length fetched \<le> nat (limit_or limit (max_history_length c) + 2))"
proof -
  have "exclude_current_pair True fetched = fetched"
    using user_in_first_two_no_role[OF assms(3,4,5)] by (simp add: exclude_current_pair_def)
  then have "fst (MongoDBClient_get_conversation_history srv c cid limit True) = Inr (rev fetched)"
    using history_connected[OF assms(1), of cid limit True] assms(2) by simp
  moreover have "0 < limit_or limit (max_history_length c) \<longrightarrow>
            length fetched \<le> nat (limit_or limit (max_history_length c) + 2)"
    using find_length[OF assms(2)] by simp
  ultimately show ?thesis by simp
qed

theorem legacy_records_not_excluded_witness:
  "fst (MongoDBClient_get_conversation_history (sample_server legacy_three) sample_client ''c1''
          (Some 1) True)
     = Inr legacy_three
   \<and> length legacy_three = nat (1 + 2)"
  using legacy_records_not_excluded[of sample_client "sample_server legacy_three" "''c1''" "Some 1"
      "rev legacy_three"]
  by (simp add: sample_server_def sample_client_def legacy_three_def legacy_message_def
      matches_conversation_def collection_find_def timestamp_key_def apply_limit_def limit_or_def)

section \<open>The limit\<close>

text \<open>
  For a positive effective limit the history stays within the limit when
  \<open>exclude_current\<close> is off, and when it is on and the scan finds a \<open>user\<close> role.
\<close>

lemma history_within_limit:
  assumes "is_connected c \<or> connect_fault srv = None"
    and "0 < limit_or limit (max_history_length c)"
    and "collection_find (server_collection srv) cid DESCENDING 0
           (limit_or limit (max_history_length c) + (if ex then 2 else 0)) = Inr fetched"
    and "fst (MongoDBClient_get_conversation_history srv c cid limit ex) = Inr ms"
    and "ex \<longrightarrow> user_in_first_two 0 fetched"
  shows "length ms \<le> nat (limit_or limit (max_history_length c))"
proof -
  have ms: "ms = rev (exclude_current_pair ex fetched)"
    using history_connected[OF assms(1), of cid limit ex] assms(3,4) by simp
  have len: "length fetched \<le> nat (limit_or limit (max_history_length c) + (if ex then 2 else 0))"
    using find_length[OF assms(3)] assms(2) by simp
  show ?thesis
  proof (cases ex)
    case False
    with ms len show ?thesis by (simp add: exclude_current_pair_def)
  next
    case True
    show ?thesis
    proof (cases "2 \<le> length fetched")
      case long: True
      with True assms(5) have "exclude_current_pair ex fetched = drop 2 fetched"
        by (simp add: exclude_current_pair_def)
      with ms len True assms(2) show ?thesis by simp
    next
      case short: False
      with True have "exclude_current_pair ex fetched = fetched"
        by (simp add: exclude_current_pair_def)
      with ms short assms(2) show ?thesis by simp
    qed
  qed
qed

text \<open>
  Claim C2. The docstring of \<open>get_conversation_history\<close> calls \<open>limit\<close> the maximal
  number of messages to return, but the two extra documents fetched for the exclusion
  step are only removed when that step finds a \<open>user\<close> role among the two newest. On
  the conversation of twenty messages whose two newest are both from the assistant, the
  call with limit 5 and \<open>exclude_current\<close> returns the seven newest messages, those at
  times 14 to 20.
\<close>

theorem limit_exceeded_when_nothing_excluded:
  "fst (MongoDBClient_get_conversation_history (sample_server twenty_messages) sample_client ''c1''
          (Some 5) True)
     = Inr (map (\<lambda>i. sample_message ''c1'' (twenty_role i) ''m'' (int i)) [14..<21])
   \<and> length (map (\<lambda>i. sample_message ''c1'' (twenty_role i) ''m'' (int i)) [14..<21]) = 7"
  by code_simp

section \<open>Validation on the repository's read path\<close>

lemma map_of_project_out_id: "k \<noteq> ''_id'' \<Longrightarrow> map_of (project_out_id d) k = map_of d k"
  by (induction d) (auto simp: project_out_id_def)

lemma map_of_dict_set: "map_of (dict_set d k v) k' = (if k' = k then Some v else map_of d k')"
  by (induction d) auto

lemma role_of_type_eq:
  "role_of_type t = (if t = PStr ''human'' then PStr ''user''
                     else if t = PStr ''ai'' then PStr ''assistant'' else t)"
  by (auto simp: role_of_type_def py_eq_PStr)

lemma validate_message_role:
  "map_of (validate_message d) ''role'' =
     (case map_of d ''role'' of
        Some r \<Rightarrow> Some r
      | None \<Rightarrow> (case map_of d ''type'' of
                   Some t \<Rightarrow> Some (role_of_type t)
                 | None \<Rightarrow> Some (PStr ''user'')))"
  by (auto simp: validate_message_def dict_contains_def dict_get_def map_of_dict_set Let_def
      split: option.splits)

lemma validate_message_content:
  "map_of (validate_message d) ''content'' =
     (case map_of d ''content'' of Some x \<Rightarrow> Some x | None \<Rightarrow> Some (PStr []))"
  by (auto simp: validate_message_def dict_contains_def dict_get_def map_of_dict_set Let_def
      split: option.splits)

lemma repository_history_ok:
  assumes "collection repo = Some col"
    and "collection_find col cid ASCENDING (if skip > 0 then nat skip else 0)
           (case limit of None \<Rightarrow> 0 | Some n \<Rightarrow> n) = Inr cursor"
  shows "ConversationRepository_get_conversation_history repo cid limit skip
          = Inr (map (\<lambda>d. validate_message (project_out_id d)) cursor)"
  using assms by (simp add: ConversationRepository_get_conversation_history_def)

text \<open>
  Claim C3. When the repository's query succeeds, \<open>get_conversation_history\<close> returns
  one record for each fetched document, in the same order, and for a document with a
  \<open>type\<close> key and no \<open>role\<close> key the returned record has the role \<open>user\<close> for the
  type \<open>human\<close>, \<open>assistant\<close> for \<open>ai\<close>, \<open>system\<close> for \<open>system\<close>, and the type
  itself for every other value.
\<close>

theorem legacy_type_migration:
  assumes "collection repo = Some col"
    and "collection_find col cid ASCENDING (if skip > 0 then nat skip else 0)
           (case limit of None \<Rightarrow> 0 | Some n \<Rightarrow> n) = Inr cursor"
  shows "\<exists>ms. ConversationRepository_get_conversation_history repo cid limit skip = Inr ms
          \<and> length ms = length cursor
          \<and> (\<forall>i < length cursor. \<forall>t.
                map_of (cursor ! i) ''type'' = Some t \<and> map_of (cursor ! i) ''role'' = None
                \<longrightarrow> map_of (ms ! i) ''role'' =
                      Some (if t = PStr ''human'' then PStr ''user''
                            else if t = PStr ''ai'' then PStr ''assistant''
                            else if t = PStr ''system'' then PStr ''system''
                            else t))"
  unfolding repository_history_ok[OF assms]
  by (auto simp: validate_message_role map_of_project_out_id role_of_type_eq)

theorem legacy_type_migration_witness:
  "ConversationRepository_get_conversation_history (sample_repository legacy_foo) ''c1'' None 0
     = Inr [legacy_message ''c1'' ''human'' ''q1'' 1 @ [(''role'', PStr ''user'')],
            legacy_message ''c1'' ''ai'' ''r1'' 2 @ [(''role'', PStr ''assistant'')],
            legacy_message ''c1'' ''foo'' ''x'' 3 @ [(''role'', PStr ''foo'')]]"
  using legacy_type_migration[of "sample_repository legacy_foo"
      "\<lparr>documents = legacy_foo, fault = None\<rparr>" "''c1''" 0 None legacy_foo]
  by (simp add: sample_repository_def legacy_foo_def legacy_message_def
      ConversationRepository_get_conversation_history_def collection_find_def
      matches_conversation_def timestamp_key_def apply_limit_def project_out_id_def
      validate_message_def dict_contains_def dict_get_def role_of_type_def)

section \<open>Defaults for missing fields\<close>

text \<open>
  The history tool formats the stored documents itself: a missing \<open>role\<close> becomes
  \<open>unknown\<close> there, not \<open>user\<close>.
\<close>

theorem facade_default_role_counterexample:
  "response_messages (fst (ConversationHandler_get_conversation_history sample_isoformat
       sample_str_exn (sample_server [bare_message]) sample_handler ''c1'' None False))
     = [[(''role'', PStr ''unknown''), (''content'', PStr []),
         (''timestamp'', PStr ''2024-01-01T00:00:00'')]]
   \<and> PStr ''unknown'' \<noteq> PStr ''user''"
  by (simp add: sample_server_def sample_client_def sample_handler_def bare_message_def
      sample_isoformat_def
      MongoDBClient_get_conversation_history_def MongoDBClient_history_try_def
      ConversationHandler_get_conversation_history_def limit_or_def collection_find_def
      matches_conversation_def timestamp_key_def apply_limit_def exclude_current_pair_def
      format_message_def format_timestamp_def dict_get_default_def)

lemma handler_messages:
  assumes "fst (MongoDBClient_get_conversation_history srv (mongodb_client h) cid
             (Some (limit_or limit (config_max_history_length h))) ex) = Inr ms"
  shows "response_messages (fst (ConversationHandler_get_conversation_history isoformat str_exn
            srv h cid limit ex)) = map (format_message isoformat) ms"
  using assms
  by (auto simp: ConversationHandler_get_conversation_history_def Let_def
      split: prod.splits sum.splits)

lemma format_message_fields:
  "map_of (format_message isoformat m) ''content'' =
     Some (case map_of m ''content'' of None \<Rightarrow> PStr [] | Some x \<Rightarrow> x)"
  "map_of (format_message isoformat m) ''role'' =
     Some (case map_of m ''role'' of None \<Rightarrow> PStr ''unknown'' | Some x \<Rightarrow> x)"
  by (simp_all add: format_message_def dict_get_default_def)

text \<open>
  Claim C4, amended. On the repository's read path a fetched document without \<open>content\<close>
  is returned with the content \<open>""\<close>, and one with neither \<open>role\<close> nor \<open>type\<close>
  with the role \<open>user\<close>. In the history tool's response a document without \<open>content\<close>
  has the content \<open>""\<close> as well, but a document without \<open>role\<close> has the role
  \<open>unknown\<close>.
\<close>

theorem default_repair:
  assumes "collection repo = Some col"
    and "collection_find col cid ASCENDING (if skip > 0 then nat skip else 0)
           (case limit of None \<Rightarrow> 0 | Some n \<Rightarrow> n) = Inr cursor"
    and "fst (MongoDBClient_get_conversation_history srv (mongodb_client h) cid'
             (Some (limit_or limit' (config_max_history_length h))) ex) = Inr fetched"
  shows "(\<exists>ms. ConversationRepository_get_conversation_history repo cid limit skip = Inr ms
          \<and> length ms = length cursor
          \<and> (\<forall>i < length cursor.
                (map_of (cursor ! i) ''content'' = None
                   \<longrightarrow> map_of (ms ! i) ''content'' = Some (PStr []))
              \<and> (map_of (cursor ! i) ''role'' = None \<and> map_of (cursor ! i) ''type'' = None
                   \<longrightarrow> map_of (ms ! i) ''role'' = Some (PStr ''user''))))
       \<and> (\<exists>out. response_messages (fst (ConversationHandler_get_conversation_history isoformat
                    str_exn srv h cid' limit' ex)) = out
          \<and> length out = length fetched
          \<and> (\<forall>i < length fetched.
                (map_of (fetched ! i) ''content'' = None
                   \<longrightarrow> map_of (out ! i) ''content'' = Some (PStr []))
              \<and> (map_of (fetched ! i) ''role'' = None
                   \<longrightarrow> map_of (out ! i) ''role'' = Some (PStr ''unknown''))))"
proof -
  have "\<exists>ms. ConversationRepository_get_conversation_history repo cid limit skip = Inr ms
          \<and> length ms = length cursor
          \<and> (\<forall>i < length cursor.
                (map_of (cursor ! i) ''content'' = None
                   \<longrightarrow> map_of (ms ! i) ''content'' = Some (PStr []))
              \<and> (map_of (cursor ! i) ''role'' = None \<and> map_of (cursor ! i) ''type'' = None
                   \<longrightarrow> map_of (ms ! i) ''role'' = Some (PStr ''user'')))"
    unfolding repository_history_ok[OF assms(1,2)]
    by (auto simp: validate_message_role validate_message_content map_of_project_out_id)
  moreover have "\<exists>out. response_messages (fst (ConversationHandler_get_conversation_history isoformat
                    str_exn srv h cid' limit' ex)) = out
          \<and> length out = length fetched
          \<and> (\<forall>i < length fetched.
                (map_of (fetched ! i) ''content'' = None
                   \<longrightarrow> map_of (out ! i) ''content'' = Some (PStr []))
              \<and> (map_of (fetched ! i) ''role'' = None
                   \<longrightarrow> map_of (out ! i) ''role'' = Some (PStr ''unknown'')))"
    unfolding handler_messages[OF assms(3)]
    by (auto simp: format_message_fields)
  ultimately show ?thesis by blast
qed

theorem default_repair_witness:
  "ConversationRepository_get_conversation_history (sample_repository [bare_message]) ''c1'' None 0
     = Inr [bare_message @ [(''role'', PStr ''user''), (''content'', PStr [])]]
   \<and> response_messages (fst (ConversationHandler_get_conversation_history sample_isoformat
       sample_str_exn (sample_server [bare_message]) sample_handler ''c1'' None False))
     = [[(''role'', PStr ''unknown''), (''content'', PStr []),
         (''timestamp'', PStr ''2024-01-01T00:00:00'')]]"
  using default_repair[of "sample_repository [bare_message]"
      "\<lparr>documents = [bare_message], fault = None\<rparr>" "''c1''" 0 None "[bare_message]"
      "sample_server [bare_message]" sample_handler "''c1''" None False "[bare_message]"
      sample_isoformat sample_str_exn]
  by (simp add: sample_server_def sample_client_def sample_handler_def bare_message_def
      sample_isoformat_def sample_repository_def
      ConversationRepository_get_conversation_history_def project_out_id_def
      validate_message_def dict_contains_def dict_get_def
      MongoDBClient_get_conversation_history_def MongoDBClient_history_try_def
      ConversationHandler_get_conversation_history_def limit_or_def collection_find_def
      matches_conversation_def timestamp_key_def apply_limit_def exclude_current_pair_def
      format_message_def format_timestamp_def dict_get_default_def)

section \<open>Storage failures\<close>

text \<open>
  The repository's handler is \<open>except PyMongoError\<close>: an exception outside the driver's
  hierarchy, here the decoder's \<open>InvalidBSON\<close>, leaves \<open>get_conversation_history\<close>.
\<close>

theorem fetch_propagates_counterexample:
  "ConversationRepository_get_conversation_history (failing_repository InvalidBSON) ''c1'' None 0
     = Inl InvalidBSON"
  by (simp add: failing_repository_def ConversationRepository_get_conversation_history_def
      collection_find_def)

lemma find_no_match:
  "fault col = None \<Longrightarrow> filter (matches_conversation cid) (documents col) = [] \<Longrightarrow>
   collection_find col cid dir sk n = Inr []"
  by (cases dir) (simp_all add: collection_find_def apply_limit_def)

lemma find_fault: "fault col = Some e \<Longrightarrow> collection_find col cid dir sk n = Inl e"
  by (simp add: collection_find_def)

lemma history_never_raises:
  "\<exists>ms. fst (MongoDBClient_get_conversation_history srv c cid limit ex) = Inr ms"
  by (auto simp: MongoDBClient_get_conversation_history_def Let_def split: prod.splits sum.splits)

lemma history_failure:
  assumes "(\<not> is_connected c \<and> connect_fault srv \<noteq> None) \<or> fault (server_collection srv) \<noteq> None"
  shows "fst (MongoDBClient_get_conversation_history srv c cid limit ex) = Inr []"
  using assms
  by (auto simp: MongoDBClient_get_conversation_history_def MongoDBClient_history_try_def
      MongoDBClient_connect_def find_fault Let_def split: prod.splits sum.splits option.splits if_splits)

lemma history_unknown:
  assumes "is_connected c \<or> connect_fault srv = None" "fault (server_collection srv) = None"
    "filter (matches_conversation cid) (documents (server_collection srv)) = []"
  shows "fst (MongoDBClient_get_conversation_history srv c cid limit ex) = Inr []"
  using history_connected[OF assms(1), of cid limit ex] find_no_match[OF assms(2,3)]
  by (simp add: exclude_current_pair_def)

text \<open>
  Claim C5, amended. \<open>MongoDBClient.get_conversation_history\<close> always returns a list:
  the empty one when the connection cannot be made or the query raises, whatever the
  exception, and the empty one for a conversation without messages.
  \<open>ConversationRepository.get_conversation_history\<close> returns the empty list when it has no
  collection, when the query raises an exception of the driver's hierarchy
  (\<open>PyMongoError\<close>), and for a conversation without messages; any other exception of the
  query propagates to the caller.
\<close>

theorem storage_failure_gives_empty:
  "(\<exists>ms. fst (MongoDBClient_get_conversation_history srv c cid limit ex) = Inr ms)
   \<and> ((\<not> is_connected c \<and> connect_fault srv \<noteq> None) \<or> fault (server_collection srv) \<noteq> None
        \<longrightarrow> fst (MongoDBClient_get_conversation_history srv c cid limit ex) = Inr [])
   \<and> ((is_connected c \<or> connect_fault srv = None) \<and> fault (server_collection srv) = None
        \<and> filter (matches_conversation cid) (documents (server_collection srv)) = []
        \<longrightarrow> fst (MongoDBClient_get_conversation_history srv c cid limit ex) = Inr [])
   \<and> (collection repo = None
        \<longrightarrow> ConversationRepository_get_conversation_history repo cid limit skip = Inr [])
   \<and> (\<forall>col e. collection repo = Some col \<and> fault col = Some e
        \<longrightarrow> ConversationRepository_get_conversation_history repo cid limit skip
             = (if is_pymongo_error e then Inr [] else Inl e))
   \<and> (\<forall>col. collection repo = Some col \<and> fault col = None
          \<and> filter (matches_conversation cid) (documents col) = []
        \<longrightarrow> ConversationRepository_get_conversation_history repo cid limit skip = Inr [])"
proof -
  have a: "collection repo = None
        \<longrightarrow> ConversationRepository_get_conversation_history repo cid limit skip = Inr []"
    by (simp add: ConversationRepository_get_conversation_history_def)
  have b: "\<forall>col e. collection repo = Some col \<and> fault col = Some e
        \<longrightarrow> ConversationRepository_get_conversation_history repo cid limit skip
             = (if is_pymongo_error e then Inr [] else Inl e)"
    by (simp add: ConversationRepository_get_conversation_history_def find_fault)
  have c: "\<forall>col. collection repo = Some col \<and> fault col = None
          \<and> filter (matches_conversation cid) (documents col) = []
        \<longrightarrow> ConversationRepository_get_conversation_history repo cid limit skip = Inr []"
    by (simp add: ConversationRepository_get_conversation_history_def find_no_match)
  show ?thesis
    using history_never_raises history_failure history_unknown a b c by blast
qed

theorem storage_failure_gives_empty_witness:
  "fst (MongoDBClient_get_conversation_history
          \<lparr>server_collection = \<lparr>documents = [sample_u1], fault = Some InvalidBSON\<rparr>,
            connect_fault = Some ConnectionFailure\<rparr>
          sample_client ''c1'' None True) = Inr []
   \<and> fst (MongoDBClient_get_conversation_history (sample_server [sample_u1]) sample_client
          ''other'' None True) = Inr []
   \<and> ConversationRepository_get_conversation_history \<lparr>collection = None\<rparr> ''c1'' None 0 = Inr []
   \<and> ConversationRepository_get_conversation_history (failing_repository OperationFailure)
        ''c1'' None 0 = Inr []
   \<and> ConversationRepository_get_conversation_history (sample_repository [sample_u1])
        ''other'' None 0 = Inr []"
  using storage_failure_gives_empty[of
      "\<lparr>server_collection = \<lparr>documents = [sample_u1], fault = Some InvalidBSON\<rparr>,
            connect_fault = Some ConnectionFailure\<rparr>" sample_client "''c1''" None True
      "failing_repository OperationFailure" 0]
    storage_failure_gives_empty[of "sample_server [sample_u1]" sample_client "''other''" None True
      "sample_repository [sample_u1]" 0]
    storage_failure_gives_empty[of "sample_server [sample_u1]" sample_client "''c1''" None True
      "\<lparr>collection = None\<rparr>" 0]
  by (simp add: sample_server_def sample_client_def sample_repository_def failing_repository_def
      sample_u1_def sample_message_def matches_conversation_def)

section \<open>The orchestrator's failures\<close>

text \<open>
  A write to the memory raises only when the server answers the insert with an
  exception outside the driver's hierarchy; otherwise it succeeds and the memory holds
  the message. Once the agent is set up, or can be, \<open>answer_question\<close> is its \<open>try\<close>
  statement, and an exception of \<open>setup\<close> reaches the caller.
\<close>

lemma repository_add_message_ok:
  assumes "\<forall>e. server_fault env = Some e \<longrightarrow> is_pymongo_error e"
  shows "\<exists>b repo'. ConversationRepository_add_message env repo cid role content = (Inr b, repo')"
  using assms
  by (auto simp: ConversationRepository_add_message_def insert_one_def Let_def
      split: option.splits)







lemma setup_failure_propagates:
  "\<not> agent_ready a \<Longrightarrow>
   answer_question (Some e) str_exn ainvoke env_user env_answer env_error a q = (Inl e, a)"
  by (simp add: answer_question_def)




section \<open>The metadata filter\<close>

text \<open>
  When the metadata of every source that has one is a dictionary, \<open>filter_by_metadata\<close>
  keeps, in their order, the sources whose metadata holds the field with a value equal
  to the given one, as in the example of the two languages.
\<close>

lemma source_matches_dict:
  assumes "\<forall>m. map_of s ''metadata'' = Some m \<longrightarrow> (\<exists>d. m = PDict d)"
  shows "source_matches s field v =
     Inr (\<exists>d x. map_of s ''metadata'' = Some (PDict d) \<and> map_of d field = Some x \<and> py_eq x v)"
  using assms
  by (auto simp: source_matches_def dict_contains_def dict_get_def py_contains_def py_getitem_def
      split: option.splits bool.splits sum.splits)

lemma filter_by_metadata_dicts:
  assumes "\<forall>s \<in> set sources. \<forall>m. map_of s ''metadata'' = Some m \<longrightarrow> (\<exists>d. m = PDict d)"
  shows "filter_by_metadata sources field v =
     Inr (filter (\<lambda>s. \<exists>d x. map_of s ''metadata'' = Some (PDict d) \<and> map_of d field = Some x
                          \<and> py_eq x v) sources)"
  using assms
proof (induction sources)
  case Nil
  then show ?case by simp
next
  case (Cons s sources)
  then show ?case by (simp add: source_matches_dict)
qed

lemma filter_by_metadata_example:
  "filter_by_metadata [[(''metadata'', PDict [(''lang'', PStr ''en'')])],
                       [(''metadata'', PDict [(''lang'', PStr ''fr'')])]] ''lang'' (PStr ''en'')
     = Inr [[(''metadata'', PDict [(''lang'', PStr ''en'')])]]"
  by (simp add: source_matches_def dict_contains_def dict_get_def py_contains_def py_getitem_def)

text \<open>
  Claim C7. \<open>filter_by_metadata\<close> evaluates \<open>field in source["metadata"]\<close> without
  the test \<open>isinstance(source["metadata"], dict)\<close> that \<open>get_metadata_fields\<close> makes
  in the same class. For a source whose \<open>metadata\<close> is \<open>None\<close> the membership test
  raises \<open>TypeError\<close>: the source is not excluded, and no list is returned.
\<close>

theorem filter_by_metadata_raises_on_null_metadata:
  "filter_by_metadata [[(''metadata'', PNone)]] ''lang'' (PStr ''en'') = Inl TypeError"
  by (simp add: source_matches_def dict_contains_def dict_get_def py_contains_def)

section \<open>Clearing a conversation\<close>

lemma filter_complement: "filter P xs = [] \<Longrightarrow> filter (\<lambda>x. \<not> P x) xs = xs"
  by (induction xs) (auto split: if_splits)

text \<open>
  Claim C8. On a repository whose collection answers, \<open>clear_conversation\<close> returns
  \<open>True\<close>, logs the number of messages of the conversation, and leaves a collection
  that holds none of them and every other document. Called again it returns \<open>True\<close>,
  logs 0 deleted messages and changes nothing; and on a conversation without messages
  the first call already logs 0 and leaves the repository as it was.
\<close>

theorem clear_conversation_idempotent:
  assumes "collection repo = Some col" "fault col = None"
  shows "\<exists>n repo' col'. clear_conversation repo cid = (Inr True, [Deleted n cid], repo')
     \<and> n = length (filter (matches_conversation cid) (documents col))
     \<and> collection repo' = Some col' \<and> fault col' = None
     \<and> documents col' = filter (\<lambda>d. \<not> matches_conversation cid d) (documents col)
     \<and> filter (matches_conversation cid) (documents col') = []
     \<and> clear_conversation repo' cid = (Inr True, [Deleted 0 cid], repo')
     \<and> (filter (matches_conversation cid) (documents col) = [] \<longrightarrow> n = 0 \<and> repo' = repo)"
  using assms
  by (auto simp: clear_conversation_def delete_many_def filter_complement)

theorem clear_conversation_idempotent_witness:
  "clear_conversation (sample_repository [sample_u1, sample_a1]) ''c1''
     = (Inr True, [Deleted 2 ''c1''], sample_repository [])
   \<and> clear_conversation (sample_repository []) ''c1''
     = (Inr True, [Deleted 0 ''c1''], sample_repository [])"
  using clear_conversation_idempotent[of "sample_repository [sample_u1, sample_a1]"
      "\<lparr>documents = [sample_u1, sample_a1], fault = None\<rparr>" "''c1''"]
  by (simp add: sample_repository_def sample_u1_def sample_a1_def sample_message_def
      clear_conversation_def delete_many_def matches_conversation_def)

end
